theory Spec2Isabelle
  imports Complex_Main "HOL-Library.AList"
begin

section \<open>A Milky Way mass model fitted by least squares\<close>

text \<open>
  The development embeds the three functions of the notebook
  \<^verbatim>\<open>docs/potential/define-milky-way-model.ipynb\<close>: \<^verbatim>\<open>get_potential\<close>, which
  assembles the four-component potential, \<^verbatim>\<open>err_func\<close>, the normalised residual of the
  enclosed-mass profile, and the cell that runs \<^verbatim>\<open>leastsq\<close> and asserts on its status.

  The finite values of Python floats are modelled by \<^typ>\<open>real\<close>, and rounding is outside
  the model. The two operations of the notebook that leave the positive finite range on
  finite arguments are modelled as they behave: \<^verbatim>\<open>np.exp\<close>, which underflows to zero and
  overflows to infinity, and the division by a zero uncertainty. Python's \<^verbatim>\<open>int\<close> is
  \<^typ>\<open>int\<close>.
\<close>

subsection \<open>Exceptions\<close>

datatype error =
  TypeError
| ValueError
| IndexError
| AssertionError string

subsection \<open>Quantities and potential components\<close>

text \<open>
  A constructor argument of a potential is either a bare number, which the library reads in
  the unit system handed to the constructor, or a number multiplied by an \<^verbatim>\<open>astropy\<close> unit
  (\<^verbatim>\<open>6.8E10*u.Msun\<close>). The arguments are recorded as the notebook writes them; converting
  between units is the unit library's work.
\<close>

datatype unit = Msun | kpc | pc

text \<open>
  The value of a float expression of \<^verbatim>\<open>get_potential\<close>: a literal is finite, the result
  of \<^verbatim>\<open>np.exp\<close> is finite or \<^verbatim>\<open>inf\<close>.
\<close>

datatype float =
  Finite real
| PosInf

definition strictly_positive :: "float \<Rightarrow> bool" where
  "strictly_positive v = (case v of Finite x \<Rightarrow> 0 < x | PosInf \<Rightarrow> True)"

text \<open>
  \<^verbatim>\<open>np.exp\<close> on a finite 64-bit float: the exponential, within the range of the format.
  A result of at most \<open>2\<^sup>-\<^sup>1\<^sup>0\<^sup>7\<^sup>5\<close>, half the smallest positive float, is rounded to
  \<^verbatim>\<open>0.0\<close> (inputs below about \<open>-745.13\<close>); a result that rounds beyond the largest float,
  from \<open>2\<^sup>1\<^sup>0\<^sup>2\<^sup>4 - 2\<^sup>9\<^sup>7\<^sup>0\<close> on, is \<^verbatim>\<open>inf\<close> (inputs above about \<open>709.78\<close>). Neither
  raises; rounding between the two limits is outside the model.
\<close>

definition underflow_limit :: real where
  "underflow_limit = 1 / 2 ^ 1075"

definition overflow_limit :: real where
  "overflow_limit = 2 ^ 1024 - 2 ^ 970"

definition np_exp :: "real \<Rightarrow> float" where
  "np_exp x =
     (if exp x \<le> underflow_limit then Finite 0
      else if overflow_limit \<le> exp x then PosInf
      else Finite (exp x))"

datatype param =
  Num float
| Qty float unit

datatype unit_system = galactic

text \<open>
  The three potential classes the notebook instantiates, with their keyword arguments in the
  order of the calls: \<^verbatim>\<open>HernquistPotential(m, c, units)\<close>,
  \<^verbatim>\<open>MiyamotoNagaiPotential(m, a, b, units)\<close>, \<^verbatim>\<open>NFWPotential(m, r_s, units)\<close>.
\<close>

datatype potential =
  HernquistPotential param param unit_system
| MiyamotoNagaiPotential param param param unit_system
| NFWPotential param param unit_system

text \<open>
  \<^verbatim>\<open>CCompositePotential\<close> is an ordered dictionary from component names to potentials:
  an association list in insertion order. Assigning to a new key appends it, assigning to a
  key that is present replaces its value in place (\<^const>\<open>AList.update\<close>).
\<close>

type_synonym composite = "(string \<times> potential) list"

definition CCompositePotential :: composite where
  "CCompositePotential = []"

definition setitem :: "composite \<Rightarrow> string \<Rightarrow> potential \<Rightarrow> composite" where
  "setitem pot key v = AList.update key v pot"

subsection \<open>The potential model builder\<close>

text \<open>
  \<^verbatim>\<open>
  def get_potential(log_M_h, log_r_s, log_M_n, log_a):
      mw_potential = gp.CCompositePotential()
      mw_potential['bulge'] = gp.HernquistPotential(m=5E9, c=1., units=galactic)
      mw_potential['disk'] = gp.MiyamotoNagaiPotential(m=6.8E10*u.Msun, a=3*u.kpc, b=280*u.pc,
                                                       units=galactic)
      mw_potential['nucl'] = gp.HernquistPotential(m=np.exp(log_M_n), c=np.exp(log_a)*u.pc,
                                                   units=galactic)
      mw_potential['halo'] = gp.NFWPotential(m=np.exp(log_M_h), r_s=np.exp(log_r_s), units=galactic)
      return mw_potential
  \<close>
\<close>

definition get_potential :: "real \<Rightarrow> real \<Rightarrow> real \<Rightarrow> real \<Rightarrow> composite" where
  "get_potential log_M_h log_r_s log_M_n log_a =
     (let mw_potential = CCompositePotential;
          mw_potential = setitem mw_potential ''bulge''
            (HernquistPotential (Num (Finite (5 * 10 ^ 9))) (Num (Finite 1)) galactic);
          mw_potential = setitem mw_potential ''disk''
            (MiyamotoNagaiPotential (Qty (Finite (6.8 * 10 ^ 10)) Msun) (Qty (Finite 3) kpc)
               (Qty (Finite 280) pc) galactic);
          mw_potential = setitem mw_potential ''nucl''
            (HernquistPotential (Num (np_exp log_M_n)) (Qty (np_exp log_a) pc) galactic);
          mw_potential = setitem mw_potential ''halo''
            (NFWPotential (Num (np_exp log_M_h)) (Num (np_exp log_r_s)) galactic)
      in mw_potential)"

text \<open>
  \<^verbatim>\<open>get_potential(*p)\<close>: the call unpacks the parameter vector into the four positional
  arguments and raises \<^verbatim>\<open>TypeError\<close> when the vector has any other length.
\<close>

definition get_potential_unpack :: "real list \<Rightarrow> error + composite" where
  "get_potential_unpack p =
     (case p of
        [log_M_h, log_r_s, log_M_n, log_a] \<Rightarrow> Inr (get_potential log_M_h log_r_s log_M_n log_a)
      | _ \<Rightarrow> Inl TypeError)"

subsection \<open>Arrays in a store\<close>

text \<open>
  \<^verbatim>\<open>numpy\<close> arrays are mutable objects handed over by reference, and \<^verbatim>\<open>err_func\<close>
  writes into one (\<^verbatim>\<open>xyz[0] = r\<close>). The store is the list of the one-dimensional buffers
  allocated so far; a reference is an index into it, and allocation appends. A
  two-dimensional array is the list of the references of its rows, so that \<^verbatim>\<open>xyz[0]\<close> is a
  buffer of its own. A reference that a caller holds points below the end of the store.
  Arrays that an expression creates and nobody writes to (\<^verbatim>\<open>model_menc - Menc\<close>) are
  plain values.
\<close>

type_synonym addr = nat

type_synonym heap = "real list list"

definition present :: "heap \<Rightarrow> addr \<Rightarrow> bool" where
  "present h a \<longleftrightarrow> a < length h"

definition alloc :: "real list \<Rightarrow> heap \<Rightarrow> addr \<times> heap" where
  "alloc xs h = (length h, h @ [xs])"

text \<open>\<^verbatim>\<open>np.zeros((m, n))\<close>: \<open>m\<close> fresh rows of \<open>n\<close> zeros each.\<close>

fun np_zeros :: "nat \<Rightarrow> nat \<Rightarrow> heap \<Rightarrow> addr list \<times> heap" where
  "np_zeros 0 n h = ([], h)"
| "np_zeros (Suc m) n h =
     (let (a, h1) = alloc (replicate n 0) h;
          (rows, h2) = np_zeros m n h1
      in (a # rows, h2))"

text \<open>
  \<^verbatim>\<open>a[i] = v\<close> for a two-dimensional \<open>a\<close> and a one-dimensional \<open>v\<close>: the values are copied
  into row \<open>i\<close>. A \<open>v\<close> of one element is broadcast over the row, any other length than the
  row's raises \<^verbatim>\<open>ValueError\<close>, a row index out of range \<^verbatim>\<open>IndexError\<close>.
\<close>

definition setrow :: "addr list \<Rightarrow> nat \<Rightarrow> real list \<Rightarrow> heap \<Rightarrow> error + heap" where
  "setrow a i v h =
     (if length a \<le> i then Inl IndexError
      else if length v = length (h ! (a ! i)) then Inr (h[a ! i := v])
      else if length v = 1 then Inr (h[a ! i := replicate (length (h ! (a ! i))) (hd v)])
      else Inl ValueError)"

text \<open>
  An arithmetic operator between two one-dimensional arrays works elementwise on equal
  lengths, broadcasts an array of one element, and raises \<^verbatim>\<open>ValueError\<close> otherwise.
\<close>

definition np_broadcast :: "(real \<Rightarrow> real \<Rightarrow> 'a) \<Rightarrow> real list \<Rightarrow> real list \<Rightarrow> error + 'a list" where
  "np_broadcast f xs ys =
     (if length xs = length ys then Inr (map2 f xs ys)
      else if length xs = 1 then Inr (map (f (hd xs)) ys)
      else if length ys = 1 then Inr (map (\<lambda>x. f x (hd ys)) xs)
      else Inl ValueError)"

definition np_sub :: "real list \<Rightarrow> real list \<Rightarrow> error + real list" where
  "np_sub = np_broadcast (\<lambda>x y. x - y)"

text \<open>
  The division of floats by \<^verbatim>\<open>/\<close> does not raise on a zero divisor: \<^verbatim>\<open>numpy\<close> warns
  and yields \<^verbatim>\<open>inf\<close>, \<^verbatim>\<open>-inf\<close> or \<^verbatim>\<open>nan\<close>. The reals have no such values, so a
  quotient is \<open>Some\<close> real number, or \<open>None\<close> where the divisor is zero.
\<close>

definition np_true_divide :: "real \<Rightarrow> real \<Rightarrow> real option" where
  "np_true_divide x y = (if y = 0 then None else Some (x / y))"

definition np_div :: "real list \<Rightarrow> real list \<Rightarrow> error + real option list" where
  "np_div = np_broadcast np_true_divide"

text \<open>
  \<^verbatim>\<open>np.max([a, b], axis=0)\<close>: the elementwise maximum of two one-dimensional arrays, in a
  fresh array. Rows of different lengths do not form a two-dimensional array.
\<close>

definition np_max_axis0 :: "addr \<Rightarrow> addr \<Rightarrow> heap \<Rightarrow> error + addr \<times> heap" where
  "np_max_axis0 a b h =
     (if length (h ! a) = length (h ! b) then Inr (alloc (map2 max (h ! a) (h ! b)) h)
      else Inl ValueError)"

subsection \<open>Enclosed mass\<close>

text \<open>
  The enclosed mass of a single component at a position, in solar masses, is the library's
  (Hernquist, Miyamoto-Nagai, NFW profiles); it is a parameter \<open>menc\<close> of the development.
\<close>

type_synonym position = "real \<times> real \<times> real"

type_synonym component_mass = "potential \<Rightarrow> position \<Rightarrow> real"

text \<open>
  Modelled from the spec: the method \<^verbatim>\<open>mass_enclosed\<close> of \<^verbatim>\<open>CCompositePotential\<close> is
  library code that the notebook only calls. "The composite's enclosed mass at radius r is
  the sum of its components' enclosed masses at r."
\<close>

definition composite_mass_enclosed :: "component_mass \<Rightarrow> composite \<Rightarrow> position \<Rightarrow> real" where
  "composite_mass_enclosed menc pot q = sum_list (map (\<lambda>(name, comp). menc comp q) pot)"

text \<open>
  Modelled from the spec: \<^verbatim>\<open>pot.mass_enclosed(xyz).to(u.Msun).value\<close> evaluates the
  enclosed mass "at each radius", one mass for each column of the position array, which has
  the three rows x, y and z; the masses are numbers of solar masses.
\<close>

definition columns :: "addr list \<Rightarrow> heap \<Rightarrow> error + position list" where
  "columns xyz h =
     (case map (\<lambda>a. h ! a) xyz of
        [xs, ys, zs] \<Rightarrow> Inr (zip xs (zip ys zs))
      | _ \<Rightarrow> Inl ValueError)"

definition mass_enclosed :: "component_mass \<Rightarrow> composite \<Rightarrow> addr list \<Rightarrow> heap \<Rightarrow> error + real list" where
  "mass_enclosed menc pot xyz h =
     (case columns xyz h of
        Inl e \<Rightarrow> Inl e
      | Inr qs \<Rightarrow> Inr (map (composite_mass_enclosed menc pot) qs))"

subsection \<open>The residual function\<close>

text \<open>
  \<^verbatim>\<open>
  def err_func(p, r, Menc, Menc_err):
      pot = get_potential(*p)
      xyz = np.zeros((3,len(r)))
      xyz[0] = r
      model_menc = pot.mass_enclosed(xyz).to(u.Msun).value
      return (model_menc - Menc) / Menc_err
  \<close>
  The arguments \<open>r\<close>, \<open>Menc\<close> and \<open>Menc_err\<close> are references to one-dimensional arrays. The
  function returns the residual vector and the store it leaves behind.
\<close>

definition err_func ::
  "component_mass \<Rightarrow> real list \<Rightarrow> addr \<Rightarrow> addr \<Rightarrow> addr \<Rightarrow> heap \<Rightarrow>
     error + real option list \<times> heap" where
  "err_func menc p r Menc Menc_err h =
     (case get_potential_unpack p of
        Inl e \<Rightarrow> Inl e
      | Inr pot \<Rightarrow>
          (let (xyz, h1) = np_zeros 3 (length (h ! r)) h in
           case setrow xyz 0 (h1 ! r) h1 of
             Inl e \<Rightarrow> Inl e
           | Inr h2 \<Rightarrow>
               (case mass_enclosed menc pot xyz h2 of
                  Inl e \<Rightarrow> Inl e
                | Inr model_menc \<Rightarrow>
                    (case np_sub model_menc (h2 ! Menc) of
                       Inl e \<Rightarrow> Inl e
                     | Inr d \<Rightarrow>
                         (case np_div d (h2 ! Menc_err) of
                            Inl e \<Rightarrow> Inl e
                          | Inr res \<Rightarrow> Inr (res, h2))))))"

subsection \<open>The optimizer driver\<close>

text \<open>The observation table: the references of its four columns.\<close>

record table =
  col_r :: addr
  col_Menc :: addr
  col_Menc_err_neg :: addr
  col_Menc_err_pos :: addr

text \<open>
  \<^verbatim>\<open>x0 = [np.log(6E11), np.log(20.), np.log(2E9), np.log(100.)]\<close>
\<close>

definition x0 :: "real list" where
  "x0 = [ln (6 * 10 ^ 11), ln 20, ln (2 * 10 ^ 9), ln 100]"

text \<open>
  \<^verbatim>\<open>scipy.optimize.leastsq(func, x0, args)\<close> is a parameter: it is given the residual
  function, the initial guess and the extra arguments of the residual function, runs in a
  store, and returns the solution with the integer status \<^verbatim>\<open>ier\<close>, or raises.
\<close>

type_synonym residual_fn =
  "real list \<Rightarrow> addr \<Rightarrow> addr \<Rightarrow> addr \<Rightarrow> heap \<Rightarrow> error + real option list \<times> heap"

type_synonym leastsq_fn =
  "residual_fn \<Rightarrow> real list \<Rightarrow> addr \<times> addr \<times> addr \<Rightarrow> heap \<Rightarrow> error + (real list \<times> int) \<times> heap"

text \<open>\<^verbatim>\<open>range(a, b)\<close> on integers.\<close>

definition py_range :: "int \<Rightarrow> int \<Rightarrow> int list" where
  "py_range a b = [a..b - 1]"

text \<open>
  The last two lines of the cell, on what \<^verbatim>\<open>leastsq\<close> returned:
  \<^verbatim>\<open>
  assert ier in range(1,4+1), "least-squares fit failed!"
  fit_potential = get_potential(*p_opt)
  \<close>
\<close>

definition check_fit ::
  "error + (real list \<times> int) \<times> heap \<Rightarrow> error + real list \<times> composite \<times> heap" where
  "check_fit res =
     (case res of
        Inl e \<Rightarrow> Inl e
      | Inr ((p_opt, ier), h) \<Rightarrow>
          if ier \<in> set (py_range 1 (4 + 1)) then
            (case get_potential_unpack p_opt of
               Inl e \<Rightarrow> Inl e
             | Inr fit_potential \<Rightarrow> Inr (p_opt, fit_potential, h))
          else Inl (AssertionError ''least-squares fit failed!''))"

text \<open>
  The whole cell:
  \<^verbatim>\<open>
  err = np.max([tbl['Menc_err_pos'], tbl['Menc_err_neg']], axis=0)
  p_opt, ier = leastsq(err_func, x0=x0, args=(tbl['r'], tbl['Menc'], err))
  assert ier in range(1,4+1), "least-squares fit failed!"
  fit_potential = get_potential(*p_opt)
  \<close>
\<close>

definition fit ::
  "component_mass \<Rightarrow> leastsq_fn \<Rightarrow> table \<Rightarrow> heap \<Rightarrow> error + real list \<times> composite \<times> heap" where
  "fit menc leastsq tbl h =
     (case np_max_axis0 (col_Menc_err_pos tbl) (col_Menc_err_neg tbl) h of
        Inl e \<Rightarrow> Inl e
      | Inr (err, h1) \<Rightarrow>
          check_fit (leastsq (err_func menc) x0 (col_r tbl, col_Menc tbl, err) h1))"

section \<open>The potential model builder\<close>

lemma get_potential_alist:
  "get_potential log_M_h log_r_s log_M_n log_a =
     [(''bulge'', HernquistPotential (Num (Finite (5 * 10 ^ 9))) (Num (Finite 1)) galactic),
      (''disk'', MiyamotoNagaiPotential (Qty (Finite (6.8 * 10 ^ 10)) Msun) (Qty (Finite 3) kpc)
         (Qty (Finite 280) pc) galactic),
      (''nucl'', HernquistPotential (Num (np_exp log_M_n)) (Qty (np_exp log_a) pc) galactic),
      (''halo'', NFWPotential (Num (np_exp log_M_h)) (Num (np_exp log_r_s)) galactic)]"
  by (simp add: get_potential_def CCompositePotential_def setitem_def)

lemma get_potential_unpack_4:
  "length p = 4 \<Longrightarrow>
     get_potential_unpack p = Inr (get_potential (p ! 0) (p ! 1) (p ! 2) (p ! 3))"
  by (auto simp: get_potential_unpack_def numeral_eq_Suc split: list.splits)

text \<open>
  Claim C10. For every four inputs the composite that \<^const>\<open>get_potential\<close> returns has
  exactly four components, named bulge, disk, nucl and halo, in this order of insertion.
\<close>

theorem get_potential_names:
  "map fst (get_potential log_M_h log_r_s log_M_n log_a) = [''bulge'', ''disk'', ''nucl'', ''halo'']
   \<and> length (get_potential log_M_h log_r_s log_M_n log_a) = 4"
  by (simp add: get_potential_alist)

text \<open>
  Claim C6. The bulge and the disk do not depend on the four inputs: whatever they are,
  the bulge is a Hernquist potential of mass \<open>5e9\<close> and scale \<open>1\<close> (bare numbers, read in
  the galactic unit system), and the disk a Miyamoto-Nagai potential of mass \<open>6.8e10\<close> solar
  masses, scale length 3 kpc and scale height 280 pc.
\<close>

theorem get_potential_fixed:
  "map_of (get_potential log_M_h log_r_s log_M_n log_a) ''bulge'' =
     Some (HernquistPotential (Num (Finite (5 * 10 ^ 9))) (Num (Finite 1)) galactic)
   \<and> map_of (get_potential log_M_h log_r_s log_M_n log_a) ''disk'' =
     Some (MiyamotoNagaiPotential (Qty (Finite (6.8 * 10 ^ 10)) Msun) (Qty (Finite 3) kpc)
       (Qty (Finite 280) pc) galactic)"
  by (simp add: get_potential_alist)

subsection \<open>The exponential of a float\<close>

lemma underflow_limit_exp: "underflow_limit = exp (- 1075 * ln 2)"
proof -
  have "exp (of_nat 1075 * ln 2) = (exp (ln 2) ^ 1075 :: real)"
    by (rule exp_of_nat_mult)
  then have "exp (1075 * ln 2) = (2 ^ 1075 :: real)"
    by simp
  then show ?thesis
    by (simp add: underflow_limit_def exp_minus inverse_eq_divide)
qed

lemma underflow_iff: "exp x \<le> underflow_limit \<longleftrightarrow> x \<le> - 1075 * ln 2"
  by (simp add: underflow_limit_exp)

lemma np_exp_Finite_0: "np_exp x = Finite 0 \<longleftrightarrow> x \<le> - 1075 * ln 2"
  by (simp add: np_exp_def underflow_iff)

lemma strictly_positive_np_exp: "strictly_positive (np_exp x) \<longleftrightarrow> - 1075 * ln 2 < x"
  by (auto simp: np_exp_def strictly_positive_def underflow_iff)

lemma np_exp_0: "np_exp 0 = Finite 1"
  by (simp add: np_exp_def underflow_limit_def overflow_limit_def)

lemma ln_2_le: "ln (2::real) \<le> 5 / 6"
proof -
  have "ln (2::real) = ln (4 / 3 * (3 / 2))"
    by simp
  also have "\<dots> = ln (4 / 3 :: real) + ln (3 / 2)"
    by (rule ln_mult_pos) simp_all
  also have "\<dots> \<le> (4 / 3 - 1) + (3 / 2 - 1)"
    by (intro add_mono ln_le_minus_one) simp_all
  finally show ?thesis
    by simp
qed

lemma np_exp_minus_1000: "np_exp (- 1000) = Finite 0"
  unfolding np_exp_Finite_0 using ln_2_le by simp

text \<open>
  Claim C4, as stated: every exponentiated value is strictly positive. It fails at the
  finite inputs \<open>(-1000, 0, 0, 0)\<close>: the exponential of \<open>-1000\<close> underflows, and the halo is
  built with the mass \<open>0.0\<close>.
\<close>

theorem get_potential_free_counterexample:
  "map_of (get_potential (- 1000) 0 0 0) ''halo'' =
     Some (NFWPotential (Num (Finite 0)) (Num (Finite 1)) galactic)
   \<and> \<not> strictly_positive (np_exp (- 1000))"
  by (simp add: get_potential_alist np_exp_minus_1000 np_exp_0 strictly_positive_def)

text \<open>
  Claim C4, amended. For every four finite inputs the free components carry the float
  exponentials of the inputs: the halo has mass \<open>np.exp(log_M_h)\<close> and scale radius
  \<open>np.exp(log_r_s)\<close>, the nucleus mass \<open>np.exp(log_M_n)\<close> and scale length \<open>np.exp(log_a)\<close>
  (in parsec). Each of the four values is strictly positive exactly when its input is above
  \<open>-1075 ln 2\<close>, about \<open>-745.13\<close>; for an input at or below it the value is \<open>0.0\<close>.
\<close>

theorem get_potential_free:
  "map_of (get_potential log_M_h log_r_s log_M_n log_a) ''halo'' =
     Some (NFWPotential (Num (np_exp log_M_h)) (Num (np_exp log_r_s)) galactic)
   \<and> map_of (get_potential log_M_h log_r_s log_M_n log_a) ''nucl'' =
     Some (HernquistPotential (Num (np_exp log_M_n)) (Qty (np_exp log_a) pc) galactic)
   \<and> list_all (\<lambda>x. (strictly_positive (np_exp x) \<longleftrightarrow> - 1075 * ln 2 < x)
                  \<and> (np_exp x = Finite 0 \<longleftrightarrow> x \<le> - 1075 * ln 2))
        [log_M_h, log_r_s, log_M_n, log_a]"
  by (simp add: get_potential_alist strictly_positive_np_exp np_exp_Finite_0)

theorem get_potential_free_witness:
  "map_of (get_potential 0 0 (- 1000) 0) ''halo'' =
     Some (NFWPotential (Num (Finite 1)) (Num (Finite 1)) galactic)
   \<and> map_of (get_potential 0 0 (- 1000) 0) ''nucl'' =
     Some (HernquistPotential (Num (Finite 0)) (Qty (Finite 1) pc) galactic)
   \<and> strictly_positive (np_exp 0) \<and> \<not> strictly_positive (np_exp (- 1000))"
  using get_potential_free [of 0 0 "- 1000" 0]
  by (simp add: np_exp_0 np_exp_minus_1000 strictly_positive_def)

text \<open>
  Claim C5. For every four inputs and every position \<open>q\<close>, the enclosed mass of the
  composite is the sum of the enclosed masses of its bulge, disk, nucleus and halo. A radius
  \<open>r > 0\<close> is the position \<open>(r, 0, 0)\<close>; the equation needs no condition on it.
\<close>

theorem composite_additive:
  "composite_mass_enclosed menc (get_potential log_M_h log_r_s log_M_n log_a) q =
     menc (HernquistPotential (Num (Finite (5 * 10 ^ 9))) (Num (Finite 1)) galactic) q
   + menc (MiyamotoNagaiPotential (Qty (Finite (6.8 * 10 ^ 10)) Msun) (Qty (Finite 3) kpc)
       (Qty (Finite 280) pc) galactic) q
   + menc (HernquistPotential (Num (np_exp log_M_n)) (Qty (np_exp log_a) pc) galactic) q
   + menc (NFWPotential (Num (np_exp log_M_h)) (Num (np_exp log_r_s)) galactic) q"
  by (simp add: composite_mass_enclosed_def get_potential_alist)

section \<open>The residual function\<close>

subsection \<open>What one evaluation does\<close>

lemma np_zeros_3:
  "np_zeros 3 n h =
     ([length h, Suc (length h), Suc (Suc (length h))],
      h @ [replicate n 0, replicate n 0, replicate n 0])"
  by (simp add: numeral_3_eq_3 alloc_def)

lemma replicate_3: "replicate 3 z = [z, z, z]"
  by (simp add: numeral_3_eq_3)

lemma zip_zeros:
  "zip xs (replicate (length xs) (0::real, 0::real)) = map (\<lambda>x. (x, 0, 0)) xs"
  by (induction xs) auto

lemma columns_xyz:
  "columns [length h, Suc (length h), Suc (Suc (length h))]
     (h @ [xs, replicate (length xs) 0, replicate (length xs) 0]) = Inr (map (\<lambda>x. (x, 0, 0)) xs)"
  by (simp add: columns_def nth_append zip_zeros)

text \<open>
  With the three references in the store, an evaluation allocates the three rows of
  \<open>xyz\<close> behind the end of the store, copies the radii into the first, and computes the
  residuals from the masses at the positions \<open>(r\<^sub>i, 0, 0)\<close>.
\<close>

lemma err_func_eval:
  assumes "present h r" "present h Menc" "present h Menc_err"
  shows "err_func menc p r Menc Menc_err h =
     (case get_potential_unpack p of
        Inl e \<Rightarrow> Inl e
      | Inr pot \<Rightarrow>
          (case np_sub (map (\<lambda>x. composite_mass_enclosed menc pot (x, 0, 0)) (h ! r)) (h ! Menc) of
             Inl e \<Rightarrow> Inl e
           | Inr d \<Rightarrow>
               (case np_div d (h ! Menc_err) of
                  Inl e \<Rightarrow> Inl e
                | Inr res \<Rightarrow>
                    Inr (res, h @ [h ! r, replicate (length (h ! r)) 0, replicate (length (h ! r)) 0]))))"
proof (cases "get_potential_unpack p")
  case (Inl e)
  then show ?thesis by (simp add: err_func_def)
next
  case (Inr pot)
  let ?z = "replicate (length (h ! r)) (0::real)"
  let ?xyz = "[length h, Suc (length h), Suc (Suc (length h))]"
  have zs: "np_zeros 3 (length (h ! r)) h = (?xyz, h @ [?z, ?z, ?z])"
    by (rule np_zeros_3)
  have wr: "setrow ?xyz 0 ((h @ [?z, ?z, ?z]) ! r) (h @ [?z, ?z, ?z]) = Inr (h @ [h ! r, ?z, ?z])"
    using assms(1) by (simp add: setrow_def present_def nth_append list_update_append)
  have rd: "(h @ [h ! r, ?z, ?z]) ! Menc = h ! Menc" "(h @ [h ! r, ?z, ?z]) ! Menc_err = h ! Menc_err"
    using assms(2,3) by (simp_all add: present_def nth_append)
  have me: "mass_enclosed menc pot ?xyz (h @ [h ! r, ?z, ?z]) =
      Inr (map (\<lambda>x. composite_mass_enclosed menc pot (x, 0, 0)) (h ! r))"
    by (simp add: mass_enclosed_def columns_xyz)
  show ?thesis
    unfolding err_func_def Inr zs
    by (simp only: sum.case Let_def prod.case wr me rd)
qed

lemma map_sum_fst_err_func:
  assumes "present h r" "present h Menc" "present h Menc_err"
  shows "map_sum id fst (err_func menc p r Menc Menc_err h) =
     (case get_potential_unpack p of
        Inl e \<Rightarrow> Inl e
      | Inr pot \<Rightarrow>
          (case np_sub (map (\<lambda>x. composite_mass_enclosed menc pot (x, 0, 0)) (h ! r)) (h ! Menc) of
             Inl e \<Rightarrow> Inl e
           | Inr d \<Rightarrow> np_div d (h ! Menc_err)))"
  by (simp add: err_func_eval [OF assms] split: sum.splits)

lemma err_func_heap:
  assumes "present h r" "present h Menc" "present h Menc_err"
    and "err_func menc p r Menc Menc_err h = Inr (res, h')"
  shows "h' = h @ [h ! r, replicate (length (h ! r)) 0, replicate (length (h ! r)) 0]"
  using assms(4) unfolding err_func_eval [OF assms(1,2,3)]
  by (auto split: sum.splits)

lemma np_broadcast_same:
  "length xs = length ys \<Longrightarrow> np_broadcast f xs ys = Inr (map2 f xs ys)"
  by (simp add: np_broadcast_def)

lemma map2_nth:
  assumes "length xs = N" "length ys = N"
  shows "map2 f xs ys = map (\<lambda>i. f (xs ! i) (ys ! i)) [0..<N]"
  using assms by (intro nth_equalityI) auto

text \<open>A run on a store of three arrays of two observations, used by the examples below.\<close>

lemma err_func_example:
  "err_func (\<lambda>comp q. fst q) [0, 0, 0, 0] 0 1 2 [[1, 2], [2, 4], [2, 4]] =
     Inr ([Some 1, Some 1], [[1, 2], [2, 4], [2, 4], [1, 2], [0, 0], [0, 0]])"
proof -
  have "present [[1, 2], [2, 4], [2, 4]] 0" "present [[1, 2], [2, 4], [2, 4]] 1"
    "present [[1, 2], [2, 4], [2, 4]] 2"
    by (simp_all add: present_def)
  then show ?thesis
    by (simp add: err_func_eval get_potential_unpack_def get_potential_alist
        composite_mass_enclosed_def np_sub_def np_div_def np_broadcast_def np_true_divide_def)
qed

subsection \<open>The residual vector\<close>

text \<open>
  Claim C2. For a parameter vector \<open>p\<close> of four numbers and arrays of radii, observed
  masses and uncertainties of the same length \<open>N\<close>, \<^const>\<open>err_func\<close> returns the sequence of
  length \<open>N\<close> whose \<open>i\<close>-th element is \<open>(model\<^sub>i - Menc\<^sub>i) / Menc_err\<^sub>i\<close>, where \<open>model\<^sub>i\<close> is
  the enclosed mass at radius \<open>r\<^sub>i\<close> of the composite that \<^const>\<open>get_potential\<close> builds from
  \<open>p\<close>. Where the uncertainty is zero the float quotient is not a number of the model.
\<close>

theorem err_func_residuals:
  assumes "present h r" "present h Menc" "present h Menc_err"
    and "length p = 4"
    and "length (h ! r) = N" "length (h ! Menc) = N" "length (h ! Menc_err) = N"
  shows "\<exists>h'. err_func menc p r Menc Menc_err h =
      Inr (map (\<lambda>i. if h ! Menc_err ! i = 0 then None
                     else Some ((composite_mass_enclosed menc
                                   (get_potential (p ! 0) (p ! 1) (p ! 2) (p ! 3))
                                   (h ! r ! i, 0, 0) - h ! Menc ! i) / h ! Menc_err ! i))
             [0..<N], h')"
proof -
  let ?pot = "get_potential (p ! 0) (p ! 1) (p ! 2) (p ! 3)"
  let ?model = "map (\<lambda>x. composite_mass_enclosed menc ?pot (x, 0, 0)) (h ! r)"
  let ?d = "map2 (\<lambda>x y. x - y) ?model (h ! Menc)"
  have d: "np_sub ?model (h ! Menc) = Inr ?d"
    using assms(5,6) by (simp add: np_sub_def np_broadcast_same)
  have q: "np_div ?d (h ! Menc_err) = Inr (map2 np_true_divide ?d (h ! Menc_err))"
    using assms(5,6,7) by (simp add: np_div_def np_broadcast_same)
  have e: "map2 np_true_divide ?d (h ! Menc_err) =
      map (\<lambda>i. if h ! Menc_err ! i = 0 then None
                else Some ((composite_mass_enclosed menc ?pot (h ! r ! i, 0, 0) - h ! Menc ! i)
                             / h ! Menc_err ! i)) [0..<N]"
    using assms(5,6,7) by (intro nth_equalityI) (auto simp: np_true_divide_def)
  have "err_func menc p r Menc Menc_err h =
      Inr (map2 np_true_divide ?d (h ! Menc_err),
           h @ [h ! r, replicate (length (h ! r)) 0, replicate (length (h ! r)) 0])"
    by (simp only: err_func_eval [OF assms(1,2,3)] get_potential_unpack_4 [OF assms(4)] sum.case d q)
  then show ?thesis
    unfolding e by blast
qed

theorem err_func_residuals_witness:
  "\<exists>h'. err_func (\<lambda>comp q. fst q) [0, 0, 0, 0] 0 1 2 [[1, 2, 3], [3, 2, 7], [2, 4, 0]] =
      Inr ([Some (1 / 2), Some (3 / 2), None], h')"
  using err_func_residuals [of "[[1, 2, 3], [3, 2, 7], [2, 4, 0]]" 0 1 2 "[0, 0, 0, 0]" 3
      "\<lambda>comp q. fst q"]
  by (simp add: present_def composite_mass_enclosed_def get_potential_alist upt_rec)

text \<open>
  Claim C8. When the observed masses are exactly the model's enclosed masses at the given
  radii for the parameter vector \<open>p\<close>, and every uncertainty is strictly positive,
  \<^const>\<open>err_func\<close> at \<open>p\<close> returns the zero vector.
\<close>

theorem err_func_perfect_fit:
  assumes "present h r" "present h Menc" "present h Menc_err"
    and "length p = 4"
    and "h ! Menc = map (\<lambda>x. composite_mass_enclosed menc
            (get_potential (p ! 0) (p ! 1) (p ! 2) (p ! 3)) (x, 0, 0)) (h ! r)"
    and "length (h ! Menc_err) = length (h ! r)"
    and "\<forall>e \<in> set (h ! Menc_err). 0 < e"
  shows "\<exists>h'. err_func menc p r Menc Menc_err h = Inr (replicate (length (h ! r)) (Some 0), h')"
proof -
  let ?model = "map (\<lambda>x. composite_mass_enclosed menc
      (get_potential (p ! 0) (p ! 1) (p ! 2) (p ! 3)) (x, 0, 0)) (h ! r)"
  have d: "np_sub ?model (h ! Menc) = Inr (replicate (length (h ! r)) 0)"
    unfolding assms(5) np_sub_def
    by (simp add: np_broadcast_same) (intro nth_equalityI; simp)
  have nz: "h ! Menc_err ! i \<noteq> 0" if "i < length (h ! r)" for i
    using assms(6,7) that by (metis less_irrefl nth_mem)
  have q: "np_div (replicate (length (h ! r)) 0) (h ! Menc_err) =
      Inr (replicate (length (h ! r)) (Some 0))"
    unfolding np_div_def using assms(6)
    by (simp add: np_broadcast_same) (intro nth_equalityI; simp add: np_true_divide_def nz)
  have "err_func menc p r Menc Menc_err h =
      Inr (replicate (length (h ! r)) (Some 0),
           h @ [h ! r, replicate (length (h ! r)) 0, replicate (length (h ! r)) 0])"
    by (simp only: err_func_eval [OF assms(1,2,3)] get_potential_unpack_4 [OF assms(4)] sum.case d q)
  then show ?thesis by blast
qed

theorem err_func_perfect_fit_witness:
  "\<exists>h'. err_func (\<lambda>comp q. fst q) [0, 0, 0, 0] 0 1 2 [[1, 2], [4, 8], [2, 4]] =
      Inr ([Some 0, Some 0], h')"
  using err_func_perfect_fit [of "[[1, 2], [4, 8], [2, 4]]" 0 1 2 "[0, 0, 0, 0]" "\<lambda>comp q. fst q"]
  by (simp add: present_def composite_mass_enclosed_def get_potential_alist numeral_2_eq_2)

subsection \<open>The position array\<close>

text \<open>
  Claim C9. An evaluation that returns has built an array of three rows of \<open>N\<close> zeros,
  \<open>N\<close> the number of radii, and written the radii into the first row only: the store it
  leaves is the old one followed by the rows \<open>r\<close>, zeros, zeros. The columns of this array,
  the positions \<open>(r\<^sub>i, 0, 0)\<close>, are where the enclosed mass is evaluated: the residuals are
  the difference of these masses and the observed ones, divided by the uncertainties.
\<close>

theorem err_func_positions:
  assumes "present h r" "present h Menc" "present h Menc_err"
    and "get_potential_unpack p = Inr pot"
    and "err_func menc p r Menc Menc_err h = Inr (res, h')"
  shows "np_zeros 3 (length (h ! r)) h =
          ([length h, length h + 1, length h + 2],
           h @ replicate 3 (replicate (length (h ! r)) 0))
     \<and> h' = h @ [h ! r, replicate (length (h ! r)) 0, replicate (length (h ! r)) 0]
     \<and> columns [length h, length h + 1, length h + 2] h' = Inr (map (\<lambda>x. (x, 0, 0)) (h ! r))
     \<and> (\<exists>d. np_sub (map (composite_mass_enclosed menc pot) (map (\<lambda>x. (x, 0, 0)) (h ! r)))
                (h ! Menc) = Inr d
            \<and> np_div d (h ! Menc_err) = Inr res)"
proof (intro conjI)
  show "np_zeros 3 (length (h ! r)) h =
          ([length h, length h + 1, length h + 2],
           h @ replicate 3 (replicate (length (h ! r)) 0))"
    using np_zeros_3 [of "length (h ! r)" h] by (simp add: replicate_3)
  show h': "h' = h @ [h ! r, replicate (length (h ! r)) 0, replicate (length (h ! r)) 0]"
    by (rule err_func_heap [OF assms(1,2,3,5)])
  show "columns [length h, length h + 1, length h + 2] h' = Inr (map (\<lambda>x. (x, 0, 0)) (h ! r))"
    using columns_xyz [of h "h ! r"] by (simp add: h')
  show "\<exists>d. np_sub (map (composite_mass_enclosed menc pot) (map (\<lambda>x. (x, 0, 0)) (h ! r)))
                (h ! Menc) = Inr d
            \<and> np_div d (h ! Menc_err) = Inr res"
    using assms(5) unfolding err_func_eval [OF assms(1,2,3)] assms(4)
    by (auto simp: comp_def split: sum.splits)
qed

theorem err_func_positions_witness:
  "np_zeros 3 2 [[1, 2], [2, 4], [2, 4]] = ([3, 4, 5], [[1, 2], [2, 4], [2, 4], [0, 0], [0, 0], [0, 0]])
   \<and> err_func (\<lambda>comp q. fst q) [0, 0, 0, 0] 0 1 2 [[1, 2], [2, 4], [2, 4]] =
       Inr ([Some 1, Some 1], [[1, 2], [2, 4], [2, 4], [1, 2], [0, 0], [0, 0]])
   \<and> columns [3, 4, 5] [[1, 2], [2, 4], [2, 4], [1, 2], [0, 0], [0, 0]] = Inr [(1, 0, 0), (2, 0, 0)]"
  using err_func_positions [of "[[1, 2], [2, 4], [2, 4]]" 0 1 2 "[0, 0, 0, 0]"
      "get_potential 0 0 0 0" "\<lambda>comp q. fst q" "[Some 1, Some 1]"
      "[[1, 2], [2, 4], [2, 4], [1, 2], [0, 0], [0, 0]]"] err_func_example
  by (simp add: present_def get_potential_unpack_def eval_nat_numeral alloc_def)

subsection \<open>Purity\<close>

text \<open>
  Claim C7. The residual function is pure and deterministic. Its outcome, the residual
  vector or the exception, is a function of the parameter vector and of the contents of the
  three arrays alone: two evaluations, in any two stores and through any references, agree
  when the parameter vectors and the contents agree; nothing of an earlier evaluation is
  kept, the potential being built from \<open>p\<close> each time. An evaluation that returns leaves
  every array of the store as it was, the radii, the observed masses and the uncertainties
  among them, and a second evaluation in the store it leaves returns the same residuals.
\<close>

theorem err_func_pure:
  assumes "present h r" "present h Menc" "present h Menc_err"
    and "present g r'" "present g Menc'" "present g Menc_err'"
    and "g ! r' = h ! r" "g ! Menc' = h ! Menc" "g ! Menc_err' = h ! Menc_err"
  shows "map_sum id fst (err_func menc p r' Menc' Menc_err' g) =
         map_sum id fst (err_func menc p r Menc Menc_err h)
     \<and> (\<forall>res h'. err_func menc p r Menc Menc_err h = Inr (res, h') \<longrightarrow>
          take (length h) h' = h
          \<and> h' ! r = h ! r \<and> h' ! Menc = h ! Menc \<and> h' ! Menc_err = h ! Menc_err
          \<and> map_sum id fst (err_func menc p r Menc Menc_err h') = Inr res)"
proof (intro conjI allI impI)
  show "map_sum id fst (err_func menc p r' Menc' Menc_err' g) =
         map_sum id fst (err_func menc p r Menc Menc_err h)"
    by (simp only: map_sum_fst_err_func [OF assms(1,2,3)] map_sum_fst_err_func [OF assms(4,5,6)]
        assms(7,8,9))
next
  fix res h'
  assume run: "err_func menc p r Menc Menc_err h = Inr (res, h')"
  have h': "h' = h @ [h ! r, replicate (length (h ! r)) 0, replicate (length (h ! r)) 0]"
    by (rule err_func_heap [OF assms(1,2,3) run])
  show "take (length h) h' = h"
    by (simp add: h')
  show keep: "h' ! r = h ! r" "h' ! Menc = h ! Menc" "h' ! Menc_err = h ! Menc_err"
    using assms(1,2,3) by (simp_all add: h' present_def nth_append)
  have pres: "present h' r" "present h' Menc" "present h' Menc_err"
    using assms(1,2,3) by (simp_all add: h' present_def)
  have "map_sum id fst (err_func menc p r Menc Menc_err h') =
      map_sum id fst (err_func menc p r Menc Menc_err h)"
    by (simp only: map_sum_fst_err_func [OF assms(1,2,3)] map_sum_fst_err_func [OF pres] keep)
  then show "map_sum id fst (err_func menc p r Menc Menc_err h') = Inr res"
    by (simp add: run)
qed

theorem err_func_pure_witness:
  "map_sum id fst (err_func (\<lambda>comp q. fst q) [0, 0, 0, 0] 2 1 3 [[9], [2, 4], [1, 2], [2, 4]]) =
   map_sum id fst (err_func (\<lambda>comp q. fst q) [0, 0, 0, 0] 0 1 2 [[1, 2], [2, 4], [2, 4]])
   \<and> err_func (\<lambda>comp q. fst q) [0, 0, 0, 0] 0 1 2 [[1, 2], [2, 4], [2, 4]] =
       Inr ([Some 1, Some 1], [[1, 2], [2, 4], [2, 4], [1, 2], [0, 0], [0, 0]])
   \<and> take 3 [[1, 2], [2, 4], [2, 4], [1, 2], [0, 0], [0, 0]] = [[1, 2], [2, 4], [2, 4 :: real]]
   \<and> map_sum id fst (err_func (\<lambda>comp q. fst q) [0, 0, 0, 0] 0 1 2
         [[1, 2], [2, 4], [2, 4], [1, 2], [0, 0], [0, 0]]) = Inr [Some 1, Some 1]"
  using err_func_pure [of "[[1, 2], [2, 4], [2, 4]]" 0 1 2 "[[9], [2, 4], [1, 2], [2, 4]]" 2 1 3
      "\<lambda>comp q. fst q" "[0, 0, 0, 0]"] err_func_example
  by (simp add: present_def)

section \<open>The optimizer driver\<close>

lemma py_range_1_5: "ier \<in> set (py_range 1 5) \<longleftrightarrow> ier = 1 \<or> ier = 2 \<or> ier = 3 \<or> ier = 4"
  by (auto simp: py_range_def)

lemma np_max_axis0_same:
  "length (h ! a) = length (h ! b) \<Longrightarrow>
     np_max_axis0 a b h = Inr (length h, h @ [map2 max (h ! a) (h ! b)])"
  by (simp add: np_max_axis0_def alloc_def)

text \<open>
  Claim C3. The uncertainty array handed to \<^verbatim>\<open>leastsq\<close> as the last argument of the
  residual function is the elementwise maximum of the two uncertainty columns of the table
  (of the same length \<open>N\<close>): it is a fresh array whose entry \<open>i\<close> is the larger of
  \<open>Menc_err_pos\<^sub>i\<close> and \<open>Menc_err_neg\<^sub>i\<close>, and the cell is the status check of that one call.
\<close>

theorem fit_uncertainty:
  assumes "length (h ! col_Menc_err_pos tbl) = N" "length (h ! col_Menc_err_neg tbl) = N"
  shows "fit menc leastsq tbl h =
      check_fit (leastsq (err_func menc) x0 (col_r tbl, col_Menc tbl, length h)
        (h @ [map (\<lambda>i. max (h ! col_Menc_err_pos tbl ! i) (h ! col_Menc_err_neg tbl ! i)) [0..<N]]))"
proof -
  have "np_max_axis0 (col_Menc_err_pos tbl) (col_Menc_err_neg tbl) h =
      Inr (length h, h @ [map2 max (h ! col_Menc_err_pos tbl) (h ! col_Menc_err_neg tbl)])"
    using assms by (simp add: np_max_axis0_same)
  then show ?thesis
    by (simp add: fit_def map2_nth [OF assms])
qed

theorem fit_uncertainty_witness:
  "fit (\<lambda>comp q. fst q) (\<lambda>f p a h. Inr ((p, 1), h))
       \<lparr>col_r = 0, col_Menc = 1, col_Menc_err_neg = 2, col_Menc_err_pos = 3\<rparr>
       [[1, 2], [2, 4], [2, 1], [1, 3]] =
     check_fit (Inr ((x0, 1), [[1, 2], [2, 4], [2, 1], [1, 3], [2, 3]]))"
  using fit_uncertainty [of "[[1, 2], [2, 4], [2, 1], [1, 3]]"
      "\<lparr>col_r = 0, col_Menc = 1, col_Menc_err_neg = 2, col_Menc_err_pos = 3\<rparr>" 2
      "\<lambda>comp q. fst q" "\<lambda>f p a h. Inr ((p, 1), h)"]
  by (simp add: upt_rec)

text \<open>
  Claim C1. Once \<^verbatim>\<open>leastsq\<close> has returned a solution of four parameters with the status
  \<open>ier\<close>, the cell succeeds exactly when \<open>ier\<close> is 1, 2, 3 or 4, with the solution and the
  potential built from it. For every other status it raises \<^verbatim>\<open>AssertionError\<close> with the
  message "least-squares fit failed!": \<^verbatim>\<open>leastsq\<close> is not called again, no other initial
  guess is tried and no fitted potential is produced.
\<close>

theorem fit_status:
  assumes "length (h ! col_Menc_err_pos tbl) = length (h ! col_Menc_err_neg tbl)"
    and "leastsq (err_func menc) x0 (col_r tbl, col_Menc tbl, length h)
           (h @ [map2 max (h ! col_Menc_err_pos tbl) (h ! col_Menc_err_neg tbl)]) =
         Inr ((p_opt, ier), h')"
    and "length p_opt = 4"
  shows "fit menc leastsq tbl h =
      (if ier \<in> {1, 2, 3, 4}
       then Inr (p_opt, get_potential (p_opt ! 0) (p_opt ! 1) (p_opt ! 2) (p_opt ! 3), h')
       else Inl (AssertionError ''least-squares fit failed!''))"
proof -
  have "fit menc leastsq tbl h = check_fit (Inr ((p_opt, ier), h'))"
    using assms(1,2) by (simp add: fit_def np_max_axis0_same)
  also have "\<dots> = (if ier \<in> {1, 2, 3, 4}
       then Inr (p_opt, get_potential (p_opt ! 0) (p_opt ! 1) (p_opt ! 2) (p_opt ! 3), h')
       else Inl (AssertionError ''least-squares fit failed!''))"
    by (simp add: check_fit_def py_range_1_5 get_potential_unpack_4 [OF assms(3)])
  finally show ?thesis .
qed

theorem fit_status_witness:
  "fit (\<lambda>comp q. fst q) (\<lambda>f p a h. Inr ((p, 1), h))
       \<lparr>col_r = 0, col_Menc = 1, col_Menc_err_neg = 2, col_Menc_err_pos = 3\<rparr>
       [[1, 2], [2, 4], [2, 1], [1, 3]] =
     Inr (x0, get_potential (x0 ! 0) (x0 ! 1) (x0 ! 2) (x0 ! 3), [[1, 2], [2, 4], [2, 1], [1, 3], [2, 3]])
   \<and> fit (\<lambda>comp q. fst q) (\<lambda>f p a h. Inr ((p, 5), h))
       \<lparr>col_r = 0, col_Menc = 1, col_Menc_err_neg = 2, col_Menc_err_pos = 3\<rparr>
       [[1, 2], [2, 4], [2, 1], [1, 3]] =
     Inl (AssertionError ''least-squares fit failed!'')"
  using fit_status [of "[[1, 2], [2, 4], [2, 1], [1, 3]]"
      "\<lparr>col_r = 0, col_Menc = 1, col_Menc_err_neg = 2, col_Menc_err_pos = 3\<rparr>"
      "\<lambda>f p a h. Inr ((p, 1), h)" "\<lambda>comp q. fst q" x0 1 "[[1, 2], [2, 4], [2, 1], [1, 3], [2, 3]]"]
    fit_status [of "[[1, 2], [2, 4], [2, 1], [1, 3]]"
      "\<lparr>col_r = 0, col_Menc = 1, col_Menc_err_neg = 2, col_Menc_err_pos = 3\<rparr>"
      "\<lambda>f p a h. Inr ((p, 5), h)" "\<lambda>comp q. fst q" x0 5 "[[1, 2], [2, 4], [2, 1], [1, 3], [2, 3]]"]
  by (simp add: x0_def)

end
